theory Spec2Isabelle
  imports Main "HOL-Library.Word"
begin

section \<open>The P4Runtime switch connection of \<open>utils/p4runtime_lib/switch.py\<close>\<close>

text \<open>
  The module is embedded function by function. Protobuf messages that the module only
  passes on (table entries, arbitration updates, packets, notifications, stream errors,
  read responses, the P4Info) are values of one type variable \<open>'m\<close>, as every Python
  object is an \<open>object\<close>. A \<open>queue.Queue\<close> is the list of its items, oldest first;
  \<open>put\<close> appends, \<open>get\<close> removes the head and blocks on the empty queue. Exceptions
  and blocking are values of the result types below.
\<close>

subsection \<open>Errors and results\<close>

datatype py_error =
  OverflowError
  | ValueError
  | RpcError string
  | Exception string

text \<open>
  What a call does: it returns a value, raises, or blocks in \<open>Queue.get\<close> for ever (no
  other thread is part of a sequential run). Each carries the state the call leaves.
\<close>

datatype ('s, 'r) outcome =
  Returns 's 'r
  | Raises 's py_error
  | Blocks 's

fun state_of :: "('s, 'r) outcome \<Rightarrow> 's" where
  "state_of (Returns s r) = s"
| "state_of (Raises s e) = s"
| "state_of (Blocks s) = s"

subsection \<open>\<open>IterableQueue\<close>\<close>

text \<open>
  \<open>_sentinel = object()\<close> is one object of the class, equal to nothing but itself: an
  item of the queue is a message or the sentinel.
\<close>

datatype 'a queue_item = Item 'a | Sentinel

type_synonym 'a IterableQueue = "'a queue_item list"

definition put :: "'a IterableQueue \<Rightarrow> 'a \<Rightarrow> 'a IterableQueue" where
  "put q x = q @ [Item x]"

definition close :: "'a IterableQueue \<Rightarrow> 'a IterableQueue" where
  "close q = q @ [Sentinel]"

text \<open>
  \<open>__iter__\<close> is \<open>iter(self.get, self._sentinel)\<close>: each step calls \<open>get\<close>; when the
  item is the sentinel the iteration ends, otherwise the item is yielded. \<open>drain\<close> runs the
  iteration to its end over the items queued so far: it gives the messages yielded, the
  queue left behind, and whether the iteration ended (\<open>True\<close>) or is blocked in \<open>get\<close> on
  the empty queue (\<open>False\<close>).
\<close>

fun drain :: "'a IterableQueue \<Rightarrow> 'a list \<times> 'a IterableQueue \<times> bool" where
  "drain [] = ([], [], False)"
| "drain (Sentinel # q) = ([], q, True)"
| "drain (Item x # q) = (case drain q of (ys, q', fin) \<Rightarrow> (x # ys, q', fin))"

text \<open>The queue after a sequence of \<open>put\<close> calls, in order.\<close>

definition puts :: "'a IterableQueue \<Rightarrow> 'a list \<Rightarrow> 'a IterableQueue" where
  "puts q xs = foldl put q xs"

subsection \<open>\<open>StreamDispatcher\<close>\<close>

text \<open>
  A \<open>StreamMessageResponse\<close> as the dispatch loop reads it: \<open>HasField(f)\<close> is whether
  field \<open>f\<close> holds a value.
\<close>

record 'm StreamMessageResponse =
  arbitration :: "'m option"
  packet :: "'m option"
  idle_timeout_notification :: "'m option"
  error :: "'m option"

definition HasField :: "'m option \<Rightarrow> bool" where
  "HasField f = (f \<noteq> None)"

text \<open>What \<open>print\<close> wrote: the label and the object printed after it.\<close>

datatype 'o printed = Printed string 'o

record 'm StreamDispatcher =
  running :: bool
  arbitration_queue :: "'m list"
  packet_in_queue :: "'m list"
  timeout_queue :: "'m list"
  error_queue :: "'m list"
  unknown_log :: "'m StreamMessageResponse printed list"

text \<open>
  \<open>__init__\<close>: the flag is set and the four queues are empty. \<open>unknown_log\<close> is what the
  dispatch thread has printed.
\<close>

definition StreamDispatcher_init :: "'m StreamDispatcher" where
  "StreamDispatcher_init =
     \<lparr>running = True, arbitration_queue = [], packet_in_queue = [], timeout_queue = [],
      error_queue = [], unknown_log = []\<rparr>"

text \<open>The body of the loop after the \<open>running\<close> test: the \<open>if\<close>/\<open>elif\<close> chain.\<close>

definition route :: "'m StreamDispatcher \<Rightarrow> 'm StreamMessageResponse \<Rightarrow> 'm StreamDispatcher" where
  "route d msg =
     (if HasField (arbitration msg)
        then d\<lparr>arbitration_queue := arbitration_queue d @ [the (arbitration msg)]\<rparr>
      else if HasField (packet msg)
        then d\<lparr>packet_in_queue := packet_in_queue d @ [the (packet msg)]\<rparr>
      else if HasField (idle_timeout_notification msg)
        then d\<lparr>timeout_queue := timeout_queue d @ [the (idle_timeout_notification msg)]\<rparr>
      else if HasField (error msg)
        then d\<lparr>error_queue := error_queue d @ [the (error msg)]\<rparr>
      else d\<lparr>unknown_log := unknown_log d @ [Printed ''Unknown StreamMessageResponse:'' msg]\<rparr>)"

text \<open>
  \<open>_dispatch_loop\<close> over the messages the stream yields: \<open>break\<close> when the flag is
  cleared, else route the message and go on; the loop ends with the stream.
\<close>

fun dispatch_loop :: "'m StreamDispatcher \<Rightarrow> 'm StreamMessageResponse list \<Rightarrow> 'm StreamDispatcher" where
  "dispatch_loop d [] = d"
| "dispatch_loop d (msg # stream) =
     (if \<not> running d then d else dispatch_loop (route d msg) stream)"

definition stop :: "'m StreamDispatcher \<Rightarrow> 'm StreamDispatcher" where
  "stop d = d\<lparr>running := False\<rparr>"

subsection \<open>Requests\<close>

type_synonym byte = "8 word"

record Uint128 =
  high :: int
  low :: int

record MasterArbitrationUpdate =
  arb_device_id :: int
  arb_election_id :: Uint128

record PacketMetadata =
  metadata_id :: int
  metadata_value :: "byte list"

record PacketOut =
  payload :: "byte list"
  metadata :: "PacketMetadata list"

text \<open>A \<open>StreamMessageRequest\<close> with the field the module sets.\<close>

datatype StreamMessageRequest =
  ArbitrationRequest MasterArbitrationUpdate
  | PacketRequest PacketOut

datatype UpdateType = UNSPECIFIED | INSERT | MODIFY | DELETE

text \<open>
  A \<open>TableEntry\<close>: the two fields the module reads or writes, and the rest of the message
  (\<open>None\<close> in a fresh one).
\<close>

record 'm TableEntry =
  table_id :: int
  is_default_action :: bool
  table_entry_rest :: "'m option"

record CounterEntry =
  counter_id :: int
  index :: "int option"

datatype 'm Entity =
  TableEntryEntity "'m TableEntry"
  | CounterEntryEntity CounterEntry
  | PacketReplicationEngineEntity 'm

record 'm Update =
  update_type :: UpdateType
  entity :: "'m Entity"

record 'm WriteRequest =
  write_device_id :: int
  write_election_id :: Uint128
  updates :: "'m Update list"

record 'm ReadRequest =
  read_device_id :: int
  entities :: "'m Entity list"

datatype ConfigAction = VERIFY_AND_COMMIT

record 'm ForwardingPipelineConfig =
  p4info :: 'm
  p4_device_config :: "byte list"

record 'm SetForwardingPipelineConfigRequest =
  config_device_id :: int
  config_election_id :: Uint128
  config :: "'m ForwardingPipelineConfig"
  action :: ConfigAction

text \<open>The unary calls of \<open>client_stub\<close>, each with its request.\<close>

datatype 'm rpc =
  SetForwardingPipelineConfig_rpc "'m SetForwardingPipelineConfigRequest"
  | Write_rpc "'m WriteRequest"
  | Read_rpc "'m ReadRequest"

text \<open>The objects the operations print.\<close>

datatype 'm printable =
  StreamRequest StreamMessageRequest
  | UnaryRequest "'m rpc"
  | Message 'm

subsection \<open>\<open>int.to_bytes(length, 'big')\<close>\<close>

text \<open>The \<open>n\<close> low bytes of \<open>v\<close>, most significant first.\<close>

fun be_bytes :: "nat \<Rightarrow> nat \<Rightarrow> byte list" where
  "be_bytes 0 v = []"
| "be_bytes (Suc n) v = be_bytes n (v div 256) @ [of_nat (v mod 256)]"

text \<open>
  Python's unsigned conversion: \<open>ValueError\<close> for a negative length, \<open>OverflowError\<close> for
  a negative value and for one that does not fit \<open>length\<close> bytes.
\<close>

definition to_bytes :: "int \<Rightarrow> int \<Rightarrow> py_error + byte list" where
  "to_bytes v len =
     (if len < 0 then Inl ValueError
      else if v < 0 then Inl OverflowError
      else if 256 ^ nat len \<le> v then Inl OverflowError
      else Inr (be_bytes (nat len) (nat v)))"

subsection \<open>\<open>SwitchConnection\<close>\<close>

text \<open>
  The connection: \<open>client_stub\<close> answers a unary call with an error or the responses it
  streams back; \<open>stub_calls\<close> is the calls issued on it so far and \<open>stdout\<close> what the
  operations have printed.
\<close>

record 'm SwitchConnection =
  name :: "string option"
  address :: string
  device_id :: int
  requests_stream :: "StreamMessageRequest IterableQueue"
  dispatcher :: "'m StreamDispatcher"
  client_stub :: "'m rpc \<Rightarrow> py_error + 'm list"
  stub_calls :: "'m rpc list"
  stdout :: "'m printable printed list"

definition SwitchConnection_init ::
  "string option \<Rightarrow> string \<Rightarrow> int \<Rightarrow> ('m rpc \<Rightarrow> py_error + 'm list) \<Rightarrow> 'm SwitchConnection" where
  "SwitchConnection_init nm addr dev stub =
     \<lparr>name = nm, address = addr, device_id = dev, requests_stream = [],
      dispatcher = StreamDispatcher_init, client_stub = stub, stub_calls = [], stdout = []\<rparr>"

definition print :: "'m SwitchConnection \<Rightarrow> string \<Rightarrow> 'm printable \<Rightarrow> 'm SwitchConnection" where
  "print c label obj = c\<lparr>stdout := stdout c @ [Printed label obj]\<rparr>"

text \<open>A unary call on the stub: the call is issued, and its error is raised to the caller.\<close>

definition call_stub :: "'m SwitchConnection \<Rightarrow> 'm rpc \<Rightarrow> ('m SwitchConnection, 'm list) outcome" where
  "call_stub c r =
     (let c' = c\<lparr>stub_calls := stub_calls c @ [r]\<rparr>
      in case client_stub c r of Inl e \<Rightarrow> Raises c' e | Inr rs \<Rightarrow> Returns c' rs)"

definition shutdown :: "'m SwitchConnection \<Rightarrow> ('m SwitchConnection, unit) outcome" where
  "shutdown c =
     Returns (c\<lparr>requests_stream := close (requests_stream c),
                dispatcher := stop (dispatcher c)\<rparr>) ()"

text \<open>
  The protobuf declarations are not among the module's files; the integer fields the
  module assigns have the types of P4Runtime's \<open>p4runtime.proto\<close>: \<open>device_id\<close> is a
  \<open>uint64\<close>, \<open>table_id\<close> and \<open>counter_id\<close> are \<open>uint32\<close>, the index of a counter entry is
  an \<open>int64\<close>. Assigning a Python integer outside the field's range raises \<open>ValueError\<close>.
\<close>

definition is_uint64 :: "int \<Rightarrow> bool" where
  "is_uint64 v = (0 \<le> v \<and> v < 2 ^ 64)"



text \<open>
  The first lines of each operation build its request; the assignment of \<open>device_id\<close> (and
  of the identifiers of a read) is where the build can raise.
\<close>

definition MasterArbitrationUpdate_request ::
  "'m SwitchConnection \<Rightarrow> py_error + StreamMessageRequest" where
  "MasterArbitrationUpdate_request c =
     (if \<not> is_uint64 (device_id c) then Inl ValueError
      else Inr (ArbitrationRequest
        \<lparr>arb_device_id = device_id c, arb_election_id = \<lparr>high = 0, low = 1\<rparr>\<rparr>))"

definition MasterArbitrationUpdate ::
  "'m SwitchConnection \<Rightarrow> bool \<Rightarrow> ('m SwitchConnection, 'm option) outcome" where
  "MasterArbitrationUpdate c dry_run =
     (case MasterArbitrationUpdate_request c of
        Inl e \<Rightarrow> Raises c e
      | Inr request \<Rightarrow>
          if dry_run
            then Returns (print c ''P4Runtime MasterArbitrationUpdate: '' (StreamRequest request)) None
          else
            (let c1 = c\<lparr>requests_stream := put (requests_stream c) request\<rparr>
             in case arbitration_queue (dispatcher c1) of
                  [] \<Rightarrow> Blocks c1
                | x # q \<Rightarrow>
                    Returns (c1\<lparr>dispatcher := (dispatcher c1)\<lparr>arbitration_queue := q\<rparr>\<rparr>)
                      (Some x)))"



text \<open>The three write operations share the shape of their request and of their tail.\<close>

definition write_request ::
  "'m SwitchConnection \<Rightarrow> UpdateType \<Rightarrow> 'm Entity \<Rightarrow> py_error + 'm WriteRequest" where
  "write_request c t e =
     (if \<not> is_uint64 (device_id c) then Inl ValueError
      else Inr
        \<lparr>write_device_id = device_id c, write_election_id = \<lparr>high = 0, low = 1\<rparr>,
         updates = [\<lparr>update_type = t, entity = e\<rparr>]\<rparr>)"

definition print_or_write ::
  "'m SwitchConnection \<Rightarrow> py_error + 'm WriteRequest \<Rightarrow> bool \<Rightarrow> ('m SwitchConnection, unit) outcome" where
  "print_or_write c built dry_run =
     (case built of
        Inl e \<Rightarrow> Raises c e
      | Inr request \<Rightarrow>
          if dry_run
            then Returns (print c ''P4Runtime Write:'' (UnaryRequest (Write_rpc request))) ()
          else
            (case call_stub c (Write_rpc request) of
               Returns c' rs \<Rightarrow> Returns c' ()
             | Raises c' e \<Rightarrow> Raises c' e
             | Blocks c' \<Rightarrow> Blocks c'))"

definition WriteTableEntry_request ::
  "'m SwitchConnection \<Rightarrow> 'm TableEntry \<Rightarrow> py_error + 'm WriteRequest" where
  "WriteTableEntry_request c table_entry =
     write_request c (if is_default_action table_entry then MODIFY else INSERT)
       (TableEntryEntity table_entry)"

definition WriteTableEntry ::
  "'m SwitchConnection \<Rightarrow> 'm TableEntry \<Rightarrow> bool \<Rightarrow> ('m SwitchConnection, unit) outcome" where
  "WriteTableEntry c table_entry dry_run =
     print_or_write c (WriteTableEntry_request c table_entry) dry_run"

definition DeleteTableEntry_request ::
  "'m SwitchConnection \<Rightarrow> 'm TableEntry \<Rightarrow> py_error + 'm WriteRequest" where
  "DeleteTableEntry_request c table_entry =
     write_request c DELETE (TableEntryEntity table_entry)"

definition DeleteTableEntry ::
  "'m SwitchConnection \<Rightarrow> 'm TableEntry \<Rightarrow> bool \<Rightarrow> ('m SwitchConnection, unit) outcome" where
  "DeleteTableEntry c table_entry dry_run =
     print_or_write c (DeleteTableEntry_request c table_entry) dry_run"

definition WritePREEntry_request :: "'m SwitchConnection \<Rightarrow> 'm \<Rightarrow> py_error + 'm WriteRequest" where
  "WritePREEntry_request c pre_entry =
     write_request c INSERT (PacketReplicationEngineEntity pre_entry)"

definition WritePREEntry ::
  "'m SwitchConnection \<Rightarrow> 'm \<Rightarrow> bool \<Rightarrow> ('m SwitchConnection, unit) outcome" where
  "WritePREEntry c pre_entry dry_run =
     print_or_write c (WritePREEntry_request c pre_entry) dry_run"








definition PacketIn :: "'m SwitchConnection \<Rightarrow> bool \<Rightarrow> ('m SwitchConnection, 'm option) outcome" where
  "PacketIn c dry_run =
     (case packet_in_queue (dispatcher c) of
        [] \<Rightarrow> Blocks c
      | request # q \<Rightarrow>
          (let c1 = c\<lparr>dispatcher := (dispatcher c)\<lparr>packet_in_queue := q\<rparr>\<rparr> in
           if dry_run then Returns (print c1 ''P4 Runtime PacketIn: '' (Message request)) None
           else Returns c1 (Some request)))"

definition IdleTimeoutNotification ::
  "'m SwitchConnection \<Rightarrow> bool \<Rightarrow> ('m SwitchConnection, 'm option) outcome" where
  "IdleTimeoutNotification c dry_run =
     (case timeout_queue (dispatcher c) of
        [] \<Rightarrow> Blocks c
      | msg # q \<Rightarrow>
          (let c1 = c\<lparr>dispatcher := (dispatcher c)\<lparr>timeout_queue := q\<rparr>\<rparr> in
           if dry_run then Returns (print c1 ''P4 Runtime PacketIn: '' (Message msg)) None
           else Returns c1 (Some msg)))"

text \<open>An element of \<open>metadatas\<close>: the dictionary's \<open>"value"\<close> and \<open>"bitwidth"\<close>.\<close>

record meta =
  meta_value :: int
  meta_bitwidth :: int

text \<open>
  The loop of \<open>PacketOut\<close> from counter \<open>i\<close> on: the items appended, or the first error
  of \<open>to_bytes\<close>.
\<close>

fun metadata_items :: "int \<Rightarrow> meta list \<Rightarrow> py_error + PacketMetadata list" where
  "metadata_items i [] = Inr []"
| "metadata_items i (m # ms) =
     (case to_bytes (meta_value m) (meta_bitwidth m) of
        Inl e \<Rightarrow> Inl e
      | Inr bs \<Rightarrow>
          (case metadata_items (i + 1) ms of
             Inl e \<Rightarrow> Inl e
           | Inr items \<Rightarrow> Inr (\<lparr>metadata_id = i, metadata_value = bs\<rparr> # items)))"

definition PacketOut ::
  "'m SwitchConnection \<Rightarrow> byte list \<Rightarrow> meta list \<Rightarrow> ('m SwitchConnection, unit) outcome" where
  "PacketOut c pl metadatas =
     (case metadata_items 1 metadatas of
        Inl e \<Rightarrow> Raises c e
      | Inr metadata_list \<Rightarrow>
          Returns (c\<lparr>requests_stream :=
                     put (requests_stream c)
                       (PacketRequest \<lparr>payload = pl, metadata = metadata_list\<rparr>)\<rparr>) ())"

subsection \<open>The registry of connections\<close>

text \<open>
  An element of \<open>connections\<close> is an object: its state and the \<open>shutdown\<close> its class gives
  it (\<open>shutdown\<close> above for \<open>SwitchConnection\<close> itself, whatever a subclass overrides it
  with otherwise).
\<close>

record 'm registered =
  obj :: "'m SwitchConnection"
  shutdown_method :: "'m SwitchConnection \<Rightarrow> ('m SwitchConnection, unit) outcome"

text \<open>
  \<open>for c in connections: c.shutdown()\<close>: the loop has no handler, so the first call that
  raises ends it with that error and the rest of the list is not visited.
\<close>

fun ShutdownAllSwitchConnections :: "'m registered list \<Rightarrow> ('m registered list, unit) outcome" where
  "ShutdownAllSwitchConnections [] = Returns [] ()"
| "ShutdownAllSwitchConnections (c # cs) =
     (case shutdown_method c (obj c) of
        Returns s u \<Rightarrow>
          (case ShutdownAllSwitchConnections cs of
             Returns cs' u' \<Rightarrow> Returns (c\<lparr>obj := s\<rparr> # cs') ()
           | Raises cs' e \<Rightarrow> Raises (c\<lparr>obj := s\<rparr> # cs') e
           | Blocks cs' \<Rightarrow> Blocks (c\<lparr>obj := s\<rparr> # cs'))
      | Raises s e \<Rightarrow> Raises (c\<lparr>obj := s\<rparr> # cs) e
      | Blocks s \<Rightarrow> Blocks (c\<lparr>obj := s\<rparr> # cs))"

subsection \<open>\<open>GrpcRequestLogger\<close>\<close>

definition MSG_LOG_MAX_LEN :: nat where
  "MSG_LOG_MAX_LEN = 1024"

text \<open>The files by path. A string is the list of its characters, as \<open>len\<close> counts them.\<close>

type_synonym files = "string \<rightharpoonup> string"

text \<open>\<open>open(log_file, 'w')\<close> and \<open>f.write("")\<close>: the file exists and is empty.\<close>

definition GrpcRequestLogger_init :: "files \<Rightarrow> string \<Rightarrow> files" where
  "GrpcRequestLogger_init fs log_file = fs(log_file \<mapsto> [])"

text \<open>\<open>"%d" % n\<close> for a length.\<close>

fun decimal :: "nat \<Rightarrow> string" where
  "decimal n =
     (if n < 10 then [''0123456789'' ! n]
      else decimal (n div 10) @ [''0123456789'' ! (n mod 10)])"

declare decimal.simps [simp del]

text \<open>What \<open>log_message\<close> writes between the header and the closing line.\<close>

definition logged_body :: "string \<Rightarrow> string" where
  "logged_body msg =
     (if length msg < MSG_LOG_MAX_LEN then msg
      else ''Message too long ('' @ decimal (length msg) @ '' bytes)! Skipping log...\<newline>'')"

text \<open>
  \<open>log_message\<close>: \<open>ts\<close> is the formatted time of the call and \<open>msg\<close> is \<open>str(body)\<close>. The
  file is opened for appending, which creates it when it is missing.
\<close>

definition contents :: "files \<Rightarrow> string \<Rightarrow> string" where
  "contents fs f = (case fs f of None \<Rightarrow> [] | Some old \<Rightarrow> old)"

definition log_message :: "files \<Rightarrow> string \<Rightarrow> string \<Rightarrow> string \<Rightarrow> string \<Rightarrow> files" where
  "log_message fs log_file ts method_name msg =
     fs(log_file \<mapsto>
        contents fs log_file
        @ ''\<newline>['' @ ts @ ''] '' @ method_name @ ''\<newline>---\<newline>''
        @ logged_body msg
        @ ''---\<newline>'')"

subsection \<open>Predicates of the statements\<close>

text \<open>How many of the four fields of a message are set. A \<open>oneof\<close> sets at most one.\<close>

definition populated :: "'m StreamMessageResponse \<Rightarrow> nat" where
  "populated msg =
     length (filter HasField
       [arbitration msg, packet msg, idle_timeout_notification msg, error msg])"

definition none_populated :: "'m StreamMessageResponse \<Rightarrow> bool" where
  "none_populated msg =
     (\<not> HasField (arbitration msg) \<and> \<not> HasField (packet msg)
      \<and> \<not> HasField (idle_timeout_notification msg) \<and> \<not> HasField (error msg))"

text \<open>The number of payloads in the four delivery queues together.\<close>

definition pushes :: "'m StreamDispatcher \<Rightarrow> nat" where
  "pushes d = length (arbitration_queue d) + length (packet_in_queue d)
     + length (timeout_queue d) + length (error_queue d)"

text \<open>A registered connection after \<open>SwitchConnection.shutdown\<close>.\<close>

definition stopped :: "'m registered \<Rightarrow> 'm registered" where
  "stopped r = r\<lparr>obj := state_of (shutdown (obj r))\<rparr>"

subsection \<open>Example values\<close>

text \<open>A fresh connection whose stub answers every call with no response.\<close>

definition conn0 :: "nat SwitchConnection" where
  "conn0 = SwitchConnection_init (Some ''s1'') ''127.0.0.1:50051'' 0 (\<lambda>r. Inr [])"

text \<open>The same connection after two packets and one notification were dispatched.\<close>

definition conn1 :: "nat SwitchConnection" where
  "conn1 = conn0\<lparr>dispatcher := (dispatcher conn0)\<lparr>packet_in_queue := [7, 8], timeout_queue := [9]\<rparr>\<rparr>"

definition good0 :: "nat registered" where
  "good0 = \<lparr>obj = conn0, shutdown_method = shutdown\<rparr>"

text \<open>An object of a subclass whose \<open>shutdown\<close> raises.\<close>

definition bad0 :: "nat registered" where
  "bad0 = \<lparr>obj = conn1, shutdown_method = (\<lambda>c. Raises c (Exception ''shutdown failed''))\<rparr>"

text \<open>A table entry that sets a default action.\<close>

definition entry0 :: "nat TableEntry" where
  "entry0 = \<lparr>table_id = 5, is_default_action = True, table_entry_rest = None\<rparr>"

definition unset :: "nat StreamMessageResponse" where
  "unset = \<lparr>arbitration = None, packet = None, idle_timeout_notification = None, error = None\<rparr>"

definition stream0 :: "nat StreamMessageResponse list" where
  "stream0 =
     [unset\<lparr>arbitration := Some 1\<rparr>, unset\<lparr>packet := Some 2\<rparr>, unset,
      unset\<lparr>arbitration := Some 3\<rparr>, unset\<lparr>error := Some 4\<rparr>,
      unset\<lparr>idle_timeout_notification := Some 5\<rparr>, unset\<lparr>packet := Some 6\<rparr>]"

section \<open>The outbound queue\<close>

lemma puts_append: "puts q xs = q @ map Item xs"
  by (induction xs arbitrary: q) (simp_all add: puts_def put_def)

lemma drain_items: "drain (map Item xs @ Sentinel # rest) = (xs, rest, True)"
  by (induction xs) simp_all

text \<open>
  C5. After any sequence of \<open>put\<close> calls on a fresh queue and \<open>close()\<close>, the iteration
  yields exactly the messages put, in order, and ends at the sentinel, which is not
  yielded (a yielded value is a message, not a queue item); what is put after \<open>close()\<close>
  stays in the queue, behind the point where the iteration ended.
\<close>

theorem outbound_fifo_until_sentinel:
  "drain (close (puts [] xs)) = (xs, [], True)
   \<and> drain (puts (close (puts [] xs)) ys) = (xs, map Item ys, True)"
  by (simp add: puts_append close_def drain_items)

section \<open>The dispatch loop\<close>

lemma running_route: "running (route d msg) = running d"
  by (simp add: route_def)

lemma route_arbitration:
  "arbitration_queue (route d msg) = arbitration_queue d @ List.map_filter arbitration [msg]"
  by (cases "arbitration msg") (simp_all add: route_def HasField_def)

lemma route_packet:
  "populated msg \<le> 1 \<Longrightarrow>
   packet_in_queue (route d msg) = packet_in_queue d @ List.map_filter packet [msg]"
  by (cases "arbitration msg"; cases "packet msg")
     (simp_all add: route_def HasField_def populated_def)

lemma route_timeout:
  "populated msg \<le> 1 \<Longrightarrow>
   timeout_queue (route d msg) =
     timeout_queue d @ List.map_filter idle_timeout_notification [msg]"
  by (cases "arbitration msg"; cases "packet msg"; cases "idle_timeout_notification msg")
     (simp_all add: route_def HasField_def populated_def)

lemma route_error:
  "populated msg \<le> 1 \<Longrightarrow>
   error_queue (route d msg) = error_queue d @ List.map_filter error [msg]"
  by (cases "arbitration msg"; cases "packet msg"; cases "idle_timeout_notification msg";
      cases "error msg")
     (simp_all add: route_def HasField_def populated_def)

lemma route_pushes:
  "pushes (route d msg) = pushes d + (if populated msg = 0 then 0 else 1)"
  by (cases "arbitration msg"; cases "packet msg"; cases "idle_timeout_notification msg";
      cases "error msg")
     (simp_all add: route_def HasField_def populated_def pushes_def)

lemma loop_arbitration:
  "running d \<Longrightarrow>
   arbitration_queue (dispatch_loop d stream) =
     arbitration_queue d @ List.map_filter arbitration stream"
proof (induction stream arbitrary: d)
  case Nil
  then show ?case by simp
next
  case (Cons msg stream)
  from Cons.prems have "running (route d msg)" by (simp add: running_route)
  from Cons.IH [OF this] Cons.prems show ?case
    by (simp add: route_arbitration split: option.split)
qed

lemma loop_packet:
  "running d \<Longrightarrow> \<forall>msg\<in>set stream. populated msg \<le> 1 \<Longrightarrow>
   packet_in_queue (dispatch_loop d stream) =
     packet_in_queue d @ List.map_filter packet stream"
proof (induction stream arbitrary: d)
  case Nil
  then show ?case by simp
next
  case (Cons msg stream)
  from Cons.prems have r: "running (route d msg)" by (simp add: running_route)
  from Cons.prems have w: "\<forall>m\<in>set stream. populated m \<le> 1" and w1: "populated msg \<le> 1"
    by simp_all
  from Cons.IH [OF r w] Cons.prems(1) w1 show ?case
    by (simp add: route_packet split: option.split)
qed

lemma loop_timeout:
  "running d \<Longrightarrow> \<forall>msg\<in>set stream. populated msg \<le> 1 \<Longrightarrow>
   timeout_queue (dispatch_loop d stream) =
     timeout_queue d @ List.map_filter idle_timeout_notification stream"
proof (induction stream arbitrary: d)
  case Nil
  then show ?case by simp
next
  case (Cons msg stream)
  from Cons.prems have r: "running (route d msg)" by (simp add: running_route)
  from Cons.prems have w: "\<forall>m\<in>set stream. populated m \<le> 1" and w1: "populated msg \<le> 1"
    by simp_all
  from Cons.IH [OF r w] Cons.prems(1) w1 show ?case
    by (simp add: route_timeout split: option.split)
qed

lemma loop_error:
  "running d \<Longrightarrow> \<forall>msg\<in>set stream. populated msg \<le> 1 \<Longrightarrow>
   error_queue (dispatch_loop d stream) =
     error_queue d @ List.map_filter error stream"
proof (induction stream arbitrary: d)
  case Nil
  then show ?case by simp
next
  case (Cons msg stream)
  from Cons.prems have r: "running (route d msg)" by (simp add: running_route)
  from Cons.prems have w: "\<forall>m\<in>set stream. populated m \<le> 1" and w1: "populated msg \<le> 1"
    by simp_all
  from Cons.IH [OF r w] Cons.prems(1) w1 show ?case
    by (simp add: route_error split: option.split)
qed

lemma loop_pushes:
  "running d \<Longrightarrow>
   pushes (dispatch_loop d stream) =
     pushes d + length (filter (\<lambda>msg. populated msg \<noteq> 0) stream)"
proof (induction stream arbitrary: d)
  case Nil
  then show ?case by simp
next
  case (Cons msg stream)
  from Cons.prems have r: "running (route d msg)" by (simp add: running_route)
  from Cons.IH [OF r] Cons.prems show ?case
    by (simp add: route_pushes)
qed

text \<open>
  C4. With no stop requested (the flag is set), and every message of the stream a
  \<open>oneof\<close> (at most one of the four fields set), the loop leaves in each delivery queue what
  it held before followed by the payloads of that field, in arrival order; the queues
  together grow by one payload for each message that has a field set.
\<close>

theorem dispatch_loop_demultiplexes:
  assumes "running d" and "\<forall>msg\<in>set stream. populated msg \<le> 1"
  shows "arbitration_queue (dispatch_loop d stream) =
           arbitration_queue d @ List.map_filter arbitration stream
       \<and> packet_in_queue (dispatch_loop d stream) =
           packet_in_queue d @ List.map_filter packet stream
       \<and> timeout_queue (dispatch_loop d stream) =
           timeout_queue d @ List.map_filter idle_timeout_notification stream
       \<and> error_queue (dispatch_loop d stream) =
           error_queue d @ List.map_filter error stream
       \<and> pushes (dispatch_loop d stream) =
           pushes d + length (filter (\<lambda>msg. populated msg = 1) stream)"
proof -
  from assms(2)
  have "filter (\<lambda>msg. populated msg = 1) stream = filter (\<lambda>msg. populated msg \<noteq> 0) stream"
    by (intro filter_cong) auto
  with assms show ?thesis
    by (simp add: loop_arbitration loop_packet loop_timeout loop_error loop_pushes)
qed

theorem dispatch_loop_demultiplexes_witness:
  "arbitration_queue (dispatch_loop StreamDispatcher_init stream0) = [1, 3]
   \<and> packet_in_queue (dispatch_loop StreamDispatcher_init stream0) = [2, 6]
   \<and> timeout_queue (dispatch_loop StreamDispatcher_init stream0) = [5]
   \<and> error_queue (dispatch_loop StreamDispatcher_init stream0) = [4]
   \<and> pushes (dispatch_loop StreamDispatcher_init stream0) = 6"
proof -
  have r: "running (StreamDispatcher_init :: nat StreamDispatcher)"
    by (simp add: StreamDispatcher_init_def)
  have w: "\<forall>msg\<in>set stream0. populated msg \<le> 1"
    by (simp add: stream0_def unset_def populated_def HasField_def)
  from dispatch_loop_demultiplexes [OF r w] show ?thesis
    by (simp add: stream0_def unset_def populated_def HasField_def pushes_def
        StreamDispatcher_init_def)
qed

text \<open>
  C6. A message with none of the four fields set, read while the flag is set, adds one
  line to what the dispatch thread printed and nothing else: the four queues and the flag
  are as before, and the loop goes on with the rest of the stream from that state.
\<close>

theorem unknown_message_dropped:
  assumes "running d" and "none_populated msg"
  shows "route d msg =
           d\<lparr>unknown_log := unknown_log d @ [Printed ''Unknown StreamMessageResponse:'' msg]\<rparr>
       \<and> arbitration_queue (route d msg) = arbitration_queue d
       \<and> packet_in_queue (route d msg) = packet_in_queue d
       \<and> timeout_queue (route d msg) = timeout_queue d
       \<and> error_queue (route d msg) = error_queue d
       \<and> running (route d msg)
       \<and> dispatch_loop d (msg # stream) = dispatch_loop (route d msg) stream"
  using assms by (simp add: route_def none_populated_def)

theorem unknown_message_dropped_witness:
  "dispatch_loop StreamDispatcher_init [unset, unset\<lparr>packet := Some 2\<rparr>] =
     \<lparr>running = True, arbitration_queue = [], packet_in_queue = [2], timeout_queue = [],
      error_queue = [],
      unknown_log = [Printed ''Unknown StreamMessageResponse:'' unset]\<rparr>
   \<and> pushes (route StreamDispatcher_init unset) = 0"
proof -
  have r: "running (StreamDispatcher_init :: nat StreamDispatcher)"
    by (simp add: StreamDispatcher_init_def)
  have n: "none_populated unset"
    by (simp add: none_populated_def unset_def HasField_def)
  from unknown_message_dropped [OF r n, of "[unset\<lparr>packet := Some 2\<rparr>]"] show ?thesis
    by (simp add: pushes_def) (simp add: StreamDispatcher_init_def route_def unset_def HasField_def)
qed

section \<open>The operations of a connection\<close>

lemma conn1_fields:
  "device_id conn1 = 0" "stdout conn1 = []" "stub_calls conn1 = []" "requests_stream conn1 = []"
  "packet_in_queue (dispatcher conn1) = [7, 8]" "timeout_queue (dispatcher conn1) = [9]"
  by (simp_all add: conn1_def conn0_def SwitchConnection_init_def)

lemma write_request_in_range:
  "is_uint64 (device_id c) \<Longrightarrow>
   write_request c t en =
     Inr \<lparr>write_device_id = device_id c, write_election_id = \<lparr>high = 0, low = 1\<rparr>,
          updates = [\<lparr>update_type = t, entity = en\<rparr>]\<rparr>"
  by (simp add: write_request_def)

lemma print_or_write_dry:
  "print_or_write c (Inr request) True =
     Returns (c\<lparr>stdout := stdout c @
        [Printed ''P4Runtime Write:'' (UnaryRequest (Write_rpc request))]\<rparr>) ()"
  by (simp add: print_or_write_def print_def)

lemma print_or_write_sends:
  "stub_calls (state_of (print_or_write c (Inr request) False)) =
     stub_calls c @ [Write_rpc request]"
  by (simp add: print_or_write_def call_stub_def Let_def split: sum.split)

lemma out_of_range_write:
  "\<not> is_uint64 (device_id c) \<Longrightarrow>
   WriteTableEntry c e dry_run = Raises c ValueError
   \<and> DeleteTableEntry c e dry_run = Raises c ValueError
   \<and> WritePREEntry c pre dry_run = Raises c ValueError"
  by (simp add: WriteTableEntry_def DeleteTableEntry_def WritePREEntry_def
      WriteTableEntry_request_def DeleteTableEntry_request_def WritePREEntry_request_def
      write_request_def print_or_write_def)

text \<open>
  C7. With \<open>device_id\<close> in the range of its field, \<open>WriteTableEntry\<close> builds one write
  request with one update, of type \<open>MODIFY\<close> exactly when the entry is a default action and
  \<open>INSERT\<close> otherwise, and \<open>DeleteTableEntry\<close> one with one update of type \<open>DELETE\<close>; that
  request is what the dry run writes to the standard output and what the call without
  \<open>dry_run\<close> issues on the stub.
\<close>

theorem write_requests_single_update:
  assumes "is_uint64 (device_id c)"
  shows "(let w = \<lparr>write_device_id = device_id c, write_election_id = \<lparr>high = 0, low = 1\<rparr>,
                   updates = [\<lparr>update_type = (if is_default_action e then MODIFY else INSERT),
                               entity = TableEntryEntity e\<rparr>]\<rparr>;
              d = \<lparr>write_device_id = device_id c, write_election_id = \<lparr>high = 0, low = 1\<rparr>,
                   updates = [\<lparr>update_type = DELETE, entity = TableEntryEntity e\<rparr>]\<rparr>
          in WriteTableEntry_request c e = Inr w
           \<and> WriteTableEntry c e True =
               Returns (c\<lparr>stdout := stdout c @
                  [Printed ''P4Runtime Write:'' (UnaryRequest (Write_rpc w))]\<rparr>) ()
           \<and> stub_calls (state_of (WriteTableEntry c e False)) = stub_calls c @ [Write_rpc w]
           \<and> length (updates w) = 1
           \<and> (update_type (hd (updates w)) = MODIFY) = is_default_action e
           \<and> (update_type (hd (updates w)) = INSERT) = (\<not> is_default_action e)
           \<and> entity (hd (updates w)) = TableEntryEntity e
           \<and> DeleteTableEntry_request c e = Inr d
           \<and> DeleteTableEntry c e True =
               Returns (c\<lparr>stdout := stdout c @
                  [Printed ''P4Runtime Write:'' (UnaryRequest (Write_rpc d))]\<rparr>) ()
           \<and> stub_calls (state_of (DeleteTableEntry c e False)) = stub_calls c @ [Write_rpc d]
           \<and> length (updates d) = 1
           \<and> update_type (hd (updates d)) = DELETE
           \<and> entity (hd (updates d)) = TableEntryEntity e)"
  using assms
  by (simp add: Let_def WriteTableEntry_def DeleteTableEntry_def WriteTableEntry_request_def
      DeleteTableEntry_request_def write_request_in_range print_or_write_dry
      print_or_write_sends)

theorem write_requests_single_update_witness:
  "WriteTableEntry conn0 entry0 True =
     Returns (conn0\<lparr>stdout :=
        [Printed ''P4Runtime Write:'' (UnaryRequest (Write_rpc
           \<lparr>write_device_id = 0, write_election_id = \<lparr>high = 0, low = 1\<rparr>,
            updates = [\<lparr>update_type = MODIFY, entity = TableEntryEntity entry0\<rparr>]\<rparr>))]\<rparr>) ()
   \<and> stub_calls (state_of (WriteTableEntry conn0 (entry0\<lparr>is_default_action := False\<rparr>) False)) =
       [Write_rpc
           \<lparr>write_device_id = 0, write_election_id = \<lparr>high = 0, low = 1\<rparr>,
            updates = [\<lparr>update_type = INSERT,
                        entity = TableEntryEntity (entry0\<lparr>is_default_action := False\<rparr>)\<rparr>]\<rparr>]
   \<and> stub_calls (state_of (DeleteTableEntry conn0 entry0 False)) =
       [Write_rpc
           \<lparr>write_device_id = 0, write_election_id = \<lparr>high = 0, low = 1\<rparr>,
            updates = [\<lparr>update_type = DELETE, entity = TableEntryEntity entry0\<rparr>]\<rparr>]"
proof -
  have v: "is_uint64 (device_id conn0)"
    by (simp add: conn0_def SwitchConnection_init_def is_uint64_def)
  have s: "stdout conn0 = []" "stub_calls conn0 = []" "device_id conn0 = 0"
    by (simp_all add: conn0_def SwitchConnection_init_def)
  from write_requests_single_update [OF v, of entry0]
       write_requests_single_update [OF v, of "entry0\<lparr>is_default_action := False\<rparr>"]
  show ?thesis
    by (simp add: Let_def s entry0_def)
qed

text \<open>
  C9. With a payload queued, \<open>PacketIn\<close> and \<open>IdleTimeoutNotification\<close> called with
  \<open>dry_run\<close> remove the oldest payload of their queue, append it to the standard output
  and return \<open>None\<close>; the next call without \<open>dry_run\<close> reads the queue without that
  payload: it returns the one behind it, or blocks when there is none.
\<close>

theorem dry_run_pull_consumes:
  "(packet_in_queue (dispatcher c) = p # ps \<longrightarrow>
      PacketIn c True =
        Returns (c\<lparr>dispatcher := (dispatcher c)\<lparr>packet_in_queue := ps\<rparr>,
                   stdout := stdout c @ [Printed ''P4 Runtime PacketIn: '' (Message p)]\<rparr>) None
      \<and> stdout (state_of (PacketIn c True)) =
          stdout c @ [Printed ''P4 Runtime PacketIn: '' (Message p)]
      \<and> packet_in_queue (dispatcher (state_of (PacketIn c True))) = ps
      \<and> PacketIn (state_of (PacketIn c True)) False =
          (case ps of
             [] \<Rightarrow> Blocks (state_of (PacketIn c True))
           | q # qs \<Rightarrow>
               Returns ((state_of (PacketIn c True))
                          \<lparr>dispatcher := (dispatcher (state_of (PacketIn c True)))
                                           \<lparr>packet_in_queue := qs\<rparr>\<rparr>) (Some q)))
   \<and> (timeout_queue (dispatcher c) = t # ts \<longrightarrow>
      IdleTimeoutNotification c True =
        Returns (c\<lparr>dispatcher := (dispatcher c)\<lparr>timeout_queue := ts\<rparr>,
                   stdout := stdout c @ [Printed ''P4 Runtime PacketIn: '' (Message t)]\<rparr>) None
      \<and> stdout (state_of (IdleTimeoutNotification c True)) =
          stdout c @ [Printed ''P4 Runtime PacketIn: '' (Message t)]
      \<and> timeout_queue (dispatcher (state_of (IdleTimeoutNotification c True))) = ts
      \<and> IdleTimeoutNotification (state_of (IdleTimeoutNotification c True)) False =
          (case ts of
             [] \<Rightarrow> Blocks (state_of (IdleTimeoutNotification c True))
           | q # qs \<Rightarrow>
               Returns ((state_of (IdleTimeoutNotification c True))
                          \<lparr>dispatcher := (dispatcher (state_of (IdleTimeoutNotification c True)))
                                           \<lparr>timeout_queue := qs\<rparr>\<rparr>) (Some q)))"
  by (simp add: PacketIn_def IdleTimeoutNotification_def print_def split: list.split)

theorem dry_run_pull_consumes_witness:
  "PacketIn conn1 True =
     Returns (conn1\<lparr>dispatcher := (dispatcher conn1)\<lparr>packet_in_queue := [8]\<rparr>,
                    stdout := [Printed ''P4 Runtime PacketIn: '' (Message 7)]\<rparr>) None
   \<and> stdout (state_of (PacketIn conn1 True)) = [Printed ''P4 Runtime PacketIn: '' (Message 7)]
   \<and> packet_in_queue (dispatcher (state_of (PacketIn conn1 True))) = [8]
   \<and> PacketIn (state_of (PacketIn conn1 True)) False =
       Returns ((state_of (PacketIn conn1 True))
                  \<lparr>dispatcher := (dispatcher (state_of (PacketIn conn1 True)))
                                   \<lparr>packet_in_queue := []\<rparr>\<rparr>) (Some 8)
   \<and> IdleTimeoutNotification conn1 True =
       Returns (conn1\<lparr>dispatcher := (dispatcher conn1)\<lparr>timeout_queue := []\<rparr>,
                      stdout := [Printed ''P4 Runtime PacketIn: '' (Message 9)]\<rparr>) None
   \<and> stdout (state_of (IdleTimeoutNotification conn1 True)) =
       [Printed ''P4 Runtime PacketIn: '' (Message 9)]
   \<and> timeout_queue (dispatcher (state_of (IdleTimeoutNotification conn1 True))) = []
   \<and> IdleTimeoutNotification (state_of (IdleTimeoutNotification conn1 True)) False =
       Blocks (state_of (IdleTimeoutNotification conn1 True))"
proof -
  note w = dry_run_pull_consumes [of conn1 7 "[8]" 9 "[]",
      unfolded list.case conn1_fields(2) append_Nil]
  from w conn1_fields(5) conn1_fields(6) show ?thesis
    by blast
qed

lemma shutdown_again:
  "((state_of \<circ> shutdown) ^^ n) c =
     c\<lparr>requests_stream := requests_stream c @ replicate n Sentinel,
       dispatcher := (if n = 0 then dispatcher c else stop (dispatcher c))\<rparr>"
proof (induction n)
  case 0
  show ?case by simp
next
  case (Suc n)
  then show ?case
    by (simp add: shutdown_def close_def stop_def replicate_append_same)
qed

text \<open>
  C10. \<open>shutdown\<close> returns and never raises; on a connection already shut down it returns
  again, the dispatcher stays stopped, and the state differs only by one more sentinel on
  the outbound queue, and so for every further call.
\<close>

theorem double_shutdown_safe:
  "(let c1 = state_of (shutdown c) in
      shutdown c = Returns c1 ()
      \<and> \<not> running (dispatcher c1)
      \<and> shutdown c1 = Returns (c1\<lparr>requests_stream := requests_stream c1 @ [Sentinel]\<rparr>) ()
      \<and> ((state_of \<circ> shutdown) ^^ n) c1 =
          c1\<lparr>requests_stream := requests_stream c1 @ replicate n Sentinel\<rparr>)"
  by (cases "n = 0") (simp_all add: Let_def shutdown_again, simp_all add: shutdown_def close_def stop_def)















section \<open>Bulk shutdown\<close>

lemma ShutdownAll_base:
  "\<forall>r\<in>set cs. shutdown_method r = shutdown \<Longrightarrow>
   ShutdownAllSwitchConnections cs = Returns (map stopped cs) ()"
  by (induction cs) (simp_all add: stopped_def shutdown_def)

lemma ShutdownAll_raises:
  "\<forall>r\<in>set pre. shutdown_method r = shutdown \<Longrightarrow>
   shutdown_method bad (obj bad) = Raises s e \<Longrightarrow>
   ShutdownAllSwitchConnections (pre @ bad # post) =
     Raises (map stopped pre @ bad\<lparr>obj := s\<rparr> # post) e"
  by (induction pre) (simp_all add: stopped_def shutdown_def)

text \<open>
  C2, as the code has it. Connections whose \<open>shutdown\<close> is \<open>SwitchConnection.shutdown\<close>
  are all shut down, each dispatcher stopped. When the \<open>shutdown\<close> of a connection behind
  them raises, bulk shutdown raises that error: the connections before it are shut down
  and the ones after it are left as they were.
\<close>

theorem bulk_shutdown_until_first_failure:
  assumes "\<forall>r\<in>set pre. shutdown_method r = shutdown"
  shows "ShutdownAllSwitchConnections pre = Returns (map stopped pre) ()
       \<and> (\<forall>r\<in>set (map stopped pre). \<not> running (dispatcher (obj r)))
       \<and> (shutdown_method bad (obj bad) = Raises s e \<longrightarrow>
            ShutdownAllSwitchConnections (pre @ bad # post) =
              Raises (map stopped pre @ bad\<lparr>obj := s\<rparr> # post) e)"
  using assms
  by (simp add: ShutdownAll_base ShutdownAll_raises) (simp add: stopped_def shutdown_def stop_def)

theorem bulk_shutdown_until_first_failure_witness:
  "ShutdownAllSwitchConnections [good0] = Returns [stopped good0] ()
   \<and> \<not> running (dispatcher (obj (stopped good0)))
   \<and> ShutdownAllSwitchConnections [good0, bad0, good0] =
       Raises [stopped good0, bad0, good0] (Exception ''shutdown failed'')"
proof -
  have h: "\<forall>r\<in>set [good0]. shutdown_method r = shutdown"
    by (simp add: good0_def)
  have b: "shutdown_method bad0 (obj bad0) = Raises (obj bad0) (Exception ''shutdown failed'')"
    by (simp add: bad0_def)
  from bulk_shutdown_until_first_failure [OF h, of bad0 "obj bad0" "Exception ''shutdown failed''" "[good0]"] b
  show ?thesis by simp
qed

text \<open>
  C2 as stated fails: with a connection whose \<open>shutdown\<close> raises registered first, the
  connection registered after it is not shut down and its dispatcher is still running.
\<close>

theorem bulk_shutdown_aborts:
  "ShutdownAllSwitchConnections [bad0, good0] = Raises [bad0, good0] (Exception ''shutdown failed'')
   \<and> running (dispatcher (obj good0))"
  by (simp add: bad0_def good0_def conn0_def SwitchConnection_init_def StreamDispatcher_init_def)

section \<open>The metadata of \<open>PacketOut\<close>\<close>

lemma length_be_bytes: "length (be_bytes n v) = n"
  by (induction n arbitrary: v) simp_all

lemma to_bytes_length: "to_bytes v len = Inr bs \<Longrightarrow> int (length bs) = len"
  by (auto simp: to_bytes_def length_be_bytes split: if_splits)

lemma be_bytes_numeral:
  "be_bytes (numeral k) v = be_bytes (pred_numeral k) (v div 256) @ [of_nat (v mod 256)]"
proof -
  have h: "numeral k = Suc (pred_numeral k)"
    by (rule numeral_eq_Suc)
  show ?thesis
    by (simp only: h be_bytes.simps)
qed

lemma to_bytes_300_16:
  "to_bytes 300 16 = Inr [0, 0, 0, 0, 0, 0, 0, 0, 0, 0, 0, 0, 0, 0, 1, 44]"
  by (simp add: to_bytes_def be_bytes_numeral)

lemma to_bytes_65536_16:
  "to_bytes 65536 16 = Inr [0, 0, 0, 0, 0, 0, 0, 0, 0, 0, 0, 0, 0, 1, 0, 0]"
  by (simp add: to_bytes_def be_bytes_numeral)

text \<open>
  C3. The code passes \<open>meta["bitwidth"]\<close> to \<open>to_bytes\<close> as a number of bytes: the value
  300 with bit width 16 is encoded as 16 bytes, not as the two bytes \<open>0x01, 0x2C\<close>, and
  the value 65536, which 16 bits cannot hold, is encoded and sent instead of failing.
\<close>

theorem PacketOut_bitwidth_counts_bytes:
  "PacketOut c pl [\<lparr>meta_value = 300, meta_bitwidth = 16\<rparr>] =
     Returns (c\<lparr>requests_stream := requests_stream c @
       [Item (PacketRequest \<lparr>payload = pl, metadata =
          [\<lparr>metadata_id = 1,
            metadata_value = [0, 0, 0, 0, 0, 0, 0, 0, 0, 0, 0, 0, 0, 0, 1, 44]\<rparr>]\<rparr>)]\<rparr>) ()
   \<and> to_bytes 300 16 \<noteq> Inr [1, 44]
   \<and> PacketOut c pl [\<lparr>meta_value = 65536, meta_bitwidth = 16\<rparr>] =
     Returns (c\<lparr>requests_stream := requests_stream c @
       [Item (PacketRequest \<lparr>payload = pl, metadata =
          [\<lparr>metadata_id = 1,
            metadata_value = [0, 0, 0, 0, 0, 0, 0, 0, 0, 0, 0, 0, 0, 1, 0, 0]\<rparr>]\<rparr>)]\<rparr>) ()"
  by (simp add: PacketOut_def put_def to_bytes_300_16 to_bytes_65536_16)

section \<open>The request logger\<close>

lemma decimal_1024: "decimal 1024 = ''1024''"
  by (simp add: decimal.simps)

lemma contents_init: "contents (GrpcRequestLogger_init fs f) f = []"
  by (simp add: contents_def GrpcRequestLogger_init_def)

text \<open>
  C8, as the code has it. The threshold is 1024. A body of fewer than 1024 characters is
  appended to the file between the header and the closing line; a body of 1024 characters
  or more is replaced by the placeholder with its length. Creating the logger leaves the
  file empty; logging appends to what the file holds and touches no other file.
\<close>

theorem request_logger_threshold:
  "MSG_LOG_MAX_LEN = 1024
   \<and> (length msg < 1024 \<longrightarrow>
        log_message fs f ts m msg f =
          Some (contents fs f @ ''\<newline>['' @ ts @ ''] '' @ m @ ''\<newline>---\<newline>'' @ msg @ ''---\<newline>''))
   \<and> (1024 \<le> length msg \<longrightarrow>
        log_message fs f ts m msg f =
          Some (contents fs f @ ''\<newline>['' @ ts @ ''] '' @ m @ ''\<newline>---\<newline>''
                @ ''Message too long ('' @ decimal (length msg) @ '' bytes)! Skipping log...\<newline>''
                @ ''---\<newline>''))
   \<and> GrpcRequestLogger_init fs f f = Some []
   \<and> (g \<noteq> f \<longrightarrow> log_message fs f ts m msg g = fs g \<and> GrpcRequestLogger_init fs f g = fs g)"
  by (simp add: MSG_LOG_MAX_LEN_def log_message_def logged_body_def contents_def
      GrpcRequestLogger_init_def)

theorem request_logger_threshold_witness:
  "log_message (GrpcRequestLogger_init Map.empty ''dump.txt'') ''dump.txt'' ''ts'' ''Write'' ''device_id: 0'' ''dump.txt''
     = Some (''\<newline>[ts] Write\<newline>---\<newline>device_id: 0---\<newline>'')
   \<and> log_message (GrpcRequestLogger_init Map.empty ''dump.txt'') ''dump.txt'' ''ts'' ''Write''
        (replicate 1024 (CHR ''a'')) ''dump.txt''
     = Some (''\<newline>[ts] Write\<newline>---\<newline>Message too long (1024 bytes)! Skipping log...\<newline>---\<newline>'')
   \<and> log_message (GrpcRequestLogger_init Map.empty ''dump.txt'') ''dump.txt'' ''ts'' ''Write''
        ''device_id: 0'' ''other.txt'' = None"
proof -
  let ?fs = "GrpcRequestLogger_init Map.empty ''dump.txt''"
  have s: "length ''device_id: 0'' < 1024" by simp
  have l: "1024 \<le> length (replicate 1024 (CHR ''a''))" by simp
  have n: "''other.txt'' \<noteq> ''dump.txt''" by simp
  have a: "log_message ?fs ''dump.txt'' ''ts'' ''Write'' ''device_id: 0'' ''dump.txt'' =
      Some (contents ?fs ''dump.txt'' @ ''\<newline>['' @ ''ts'' @ ''] '' @ ''Write'' @ ''\<newline>---\<newline>''
            @ ''device_id: 0'' @ ''---\<newline>'')"
    using request_logger_threshold [of "''device_id: 0''" ?fs "''dump.txt''" "''ts''" "''Write''"
        "''other.txt''"] s by blast
  have b: "log_message ?fs ''dump.txt'' ''ts'' ''Write'' (replicate 1024 (CHR ''a'')) ''dump.txt'' =
      Some (contents ?fs ''dump.txt'' @ ''\<newline>['' @ ''ts'' @ ''] '' @ ''Write'' @ ''\<newline>---\<newline>''
            @ ''Message too long ('' @ decimal (length (replicate 1024 (CHR ''a'')))
            @ '' bytes)! Skipping log...\<newline>'' @ ''---\<newline>'')"
    using request_logger_threshold [of "replicate 1024 (CHR ''a'')" ?fs "''dump.txt''" "''ts''"
        "''Write''" "''other.txt''"] l by blast
  have c: "log_message ?fs ''dump.txt'' ''ts'' ''Write'' ''device_id: 0'' ''other.txt'' =
      ?fs ''other.txt''"
    using request_logger_threshold [of "''device_id: 0''" ?fs "''dump.txt''" "''ts''" "''Write''"
        "''other.txt''"] n by blast
  have d: "?fs ''other.txt'' = None"
    by (simp add: GrpcRequestLogger_init_def)
  have e: "decimal (length (replicate 1024 (CHR ''a''))) = ''1024''"
    by (simp add: decimal_1024)
  show ?thesis
    by (simp only: a b c d e contents_init) simp
qed

text \<open>
  C8 as stated fails: a body of exactly 1024 characters does not exceed 1024, and the
  placeholder is written in its place.
\<close>

theorem body_of_1024_characters_elided:
  "length (replicate 1024 (CHR ''a'')) = 1024
   \<and> logged_body (replicate 1024 (CHR ''a'')) =
       ''Message too long (1024 bytes)! Skipping log...\<newline>''
   \<and> logged_body (replicate 1024 (CHR ''a'')) \<noteq> replicate 1024 (CHR ''a'')"
proof -
  have 1: "logged_body (replicate 1024 (CHR ''a'')) =
       ''Message too long (1024 bytes)! Skipping log...\<newline>''"
    by (simp add: logged_body_def MSG_LOG_MAX_LEN_def decimal_1024)
  have "length (logged_body (replicate 1024 (CHR ''a''))) \<noteq> length (replicate 1024 (CHR ''a''))"
    by (simp only: 1) simp
  then have "logged_body (replicate 1024 (CHR ''a'')) \<noteq> replicate 1024 (CHR ''a'')"
    by metis
  with 1 show ?thesis by simp
qed

end
